theory Spec2Isabelle
  imports Main "HOL-Library.DAList"
begin

section \<open>Object store\<close>

text \<open>
  The classes of \<^verbatim>\<open>SMS.py\<close> define neither \<^verbatim>\<open>__eq__\<close> nor \<^verbatim>\<open>__hash__\<close>, so
  \<^verbatim>\<open>x in xs\<close>, \<^verbatim>\<open>xs.remove(x)\<close> and dictionary keys compare objects by identity.
  Objects are therefore addresses into a store, and two students with equal fields
  at different addresses are different objects. A Python reference always points to
  an object, so the store is total on addresses.
\<close>

type_synonym sref = nat
type_synonym iref = nat
type_synonym cref = nat
type_synonym eref = nat

text \<open>
  Every failure of the source is a \<^verbatim>\<open>ValueError\<close> carrying a message, except the
  \<^verbatim>\<open>NameError\<close> Python raises when a name is bound nowhere.
\<close>

datatype error = ValueError string | NameError string

record Person =
  name :: string
  id_number :: string

text \<open>
  \<^verbatim>\<open>Student.courses\<close> is a \<^verbatim>\<open>dict\<close> keyed by course objects: an association list
  with distinct keys in insertion order; assigning to a key that is present keeps its
  position.
\<close>

record Student = Person +
  major :: string
  courses :: "(cref, string option) alist"

record Instructor = Person +
  department :: string

text \<open>
  \<^verbatim>\<open>Course.enrolled_students\<close> is a list of student objects. Each course owns its
  list: a list object handed to the constructors of two courses, and so shared by them,
  is outside this model.
\<close>

record Course =
  course_name :: string
  course_id :: string
  enrolled_students :: "sref list"

record Enrollment =
  student :: sref
  course :: cref
  grade :: "string option"

text \<open>\<open>next_enrol\<close> is the address the next \<^verbatim>\<open>Enrollment(...)\<close> is allocated at.\<close>

record store =
  student_at :: "sref \<Rightarrow> Student"
  instructor_at :: "iref \<Rightarrow> Instructor"
  course_at :: "cref \<Rightarrow> Course"
  enrol_at :: "eref \<Rightarrow> Enrollment"
  next_enrol :: eref

text \<open>
  The four lists of \<^verbatim>\<open>StudentManagementSystem\<close>; the fields carry the prefix
  \<open>sms_\<close> because \<open>courses\<close> is already the field of a student.
\<close>

record StudentManagementSystem =
  sms_students :: "sref list"
  sms_instructors :: "iref list"
  sms_courses :: "cref list"
  sms_enrollments :: "eref list"

section \<open>Student and Course\<close>

text \<open>\<^verbatim>\<open>Student.add_course(self, enrol)\<close>\<close>

definition Student_add_course :: "store \<Rightarrow> sref \<Rightarrow> eref \<Rightarrow> store" where
  "Student_add_course h self enrol =
     (if id_number (student_at h self) = id_number (student_at h (student (enrol_at h enrol)))
      then h\<lparr>student_at := (student_at h)(self := (student_at h self)
             \<lparr>courses := DAList.update (course (enrol_at h enrol)) (grade (enrol_at h enrol))
                           (courses (student_at h self))\<rparr>)\<rparr>
      else h)"

text \<open>\<^verbatim>\<open>Course.enrollment(self, enrol)\<close>\<close>

definition Course_enrollment :: "store \<Rightarrow> cref \<Rightarrow> eref \<Rightarrow> store" where
  "Course_enrollment h self enrol =
     (if course_name (course_at h self) = course_name (course_at h (course (enrol_at h enrol)))
      then h\<lparr>course_at := (course_at h)(self := (course_at h self)
             \<lparr>enrolled_students :=
                enrolled_students (course_at h self) @ [student (enrol_at h enrol)]\<rparr>)\<rparr>
      else h)"

section \<open>Enrollment\<close>

text \<open>
  \<^verbatim>\<open>Enrollment.__init__(self, student, course, grade)\<close>: the new object is stored,
  then \<^verbatim>\<open>self.course.enrollment(self)\<close> and \<^verbatim>\<open>self.student.add_course(self)\<close>
  run in this order. The result is the new object and the store.
\<close>

definition Enrollment_init :: "store \<Rightarrow> sref \<Rightarrow> cref \<Rightarrow> string option \<Rightarrow> eref \<times> store" where
  "Enrollment_init h s c g =
     (let self = next_enrol h;
          h0 = h\<lparr>enrol_at := (enrol_at h)(self := \<lparr>student = s, course = c, grade = g\<rparr>),
                 next_enrol := Suc self\<rparr>;
          h1 = Course_enrollment h0 (course (enrol_at h0 self)) self;
          h2 = Student_add_course h1 (student (enrol_at h1 self)) self
      in (self, h2))"

definition grade_system :: "string list" where
  "grade_system = [''A'', ''B'', ''C'', ''D'', ''E'', ''F'']"

text \<open>
  \<^verbatim>\<open>Enrollment.assign_grade(self, grade)\<close>. A method that can raise returns the
  outcome together with the store at that moment, so that what a failed call left
  behind can be stated.
\<close>

definition Enrollment_assign_grade :: "store \<Rightarrow> eref \<Rightarrow> string \<Rightarrow> (error + unit) \<times> store" where
  "Enrollment_assign_grade h self g =
     (if g \<in> set grade_system
      then (let h1 = h\<lparr>enrol_at := (enrol_at h)(self := (enrol_at h self)\<lparr>grade := Some g\<rparr>)\<rparr>;
                s = student (enrol_at h1 self);
                h2 = h1\<lparr>student_at := (student_at h1)(s := (student_at h1 s)
                       \<lparr>courses := DAList.update (course (enrol_at h1 self)) (Some g)
                                     (courses (student_at h1 s))\<rparr>)\<rparr>
            in (Inr (), h2))
      else (Inl (ValueError ''Invalid grading system''), h))"

section \<open>Course: adding, finding and removing students\<close>

text \<open>\<^verbatim>\<open>Course.add_student(self, student)\<close>; the enrollment object it builds is dropped.\<close>

definition Course_add_student :: "store \<Rightarrow> cref \<Rightarrow> sref \<Rightarrow> (error + unit) \<times> store" where
  "Course_add_student h self s =
     (if s \<in> set (enrolled_students (course_at h self))
      then (Inl (ValueError (''Student ID '' @ id_number (student_at h s) @
                             '' is already enrolled in course '' @
                             course_name (course_at h self))), h)
      else (Inr (), snd (Enrollment_init h s self None)))"

text \<open>\<^verbatim>\<open>Course.find_enrolled_student(self, student_id)\<close>: the first match, or \<^verbatim>\<open>None\<close>.\<close>

definition Course_find_enrolled_student :: "store \<Rightarrow> cref \<Rightarrow> string \<Rightarrow> sref option" where
  "Course_find_enrolled_student h self student_id =
     find (\<lambda>std. id_number (student_at h std) = student_id)
          (enrolled_students (course_at h self))"

text \<open>\<^verbatim>\<open>list.remove(x)\<close> deletes the first occurrence and raises when there is none.\<close>

definition list_remove :: "'a list \<Rightarrow> 'a \<Rightarrow> error + 'a list" where
  "list_remove xs x =
     (if x \<in> set xs then Inr (remove1 x xs)
      else Inl (ValueError ''list.remove(x): x not in list''))"

text \<open>
  \<^verbatim>\<open>Course.remove_student(self, student_id)\<close>. A student object is always truthy,
  so \<^verbatim>\<open>if std_enrolled:\<close> tests for \<^verbatim>\<open>None\<close>.
\<close>

definition Course_remove_student :: "store \<Rightarrow> cref \<Rightarrow> string \<Rightarrow> (error + unit) \<times> store" where
  "Course_remove_student h self student_id =
     (case Course_find_enrolled_student h self student_id of
        None \<Rightarrow> (Inr (), h)
      | Some std_enrolled \<Rightarrow>
          (case list_remove (enrolled_students (course_at h self)) std_enrolled of
             Inl e \<Rightarrow> (Inl e, h)
           | Inr xs \<Rightarrow>
               (Inr (), h\<lparr>course_at := (course_at h)(self := (course_at h self)
                            \<lparr>enrolled_students := xs\<rparr>)\<rparr>)))"

section \<open>StudentManagementSystem\<close>

definition SMS_init :: StudentManagementSystem where
  "SMS_init = \<lparr>sms_students = [], sms_instructors = [], sms_courses = [], sms_enrollments = []\<rparr>"

definition SMS_add_student :: "StudentManagementSystem \<Rightarrow> sref \<Rightarrow> StudentManagementSystem" where
  "SMS_add_student r s =
     (if s \<notin> set (sms_students r) then r\<lparr>sms_students := sms_students r @ [s]\<rparr> else r)"

definition SMS_find_student :: "store \<Rightarrow> StudentManagementSystem \<Rightarrow> string \<Rightarrow> error + sref" where
  "SMS_find_student h r student_id =
     (case find (\<lambda>std. id_number (student_at h std) = student_id) (sms_students r) of
        Some std \<Rightarrow> Inr std
      | None \<Rightarrow> Inl (ValueError (''No student record found for ID: '' @ student_id)))"

definition SMS_add_instructor :: "StudentManagementSystem \<Rightarrow> iref \<Rightarrow> StudentManagementSystem" where
  "SMS_add_instructor r i =
     (if i \<notin> set (sms_instructors r) then r\<lparr>sms_instructors := sms_instructors r @ [i]\<rparr>
      else r)"

definition SMS_add_course :: "StudentManagementSystem \<Rightarrow> cref \<Rightarrow> StudentManagementSystem" where
  "SMS_add_course r c =
     (if c \<notin> set (sms_courses r) then r\<lparr>sms_courses := sms_courses r @ [c]\<rparr> else r)"

definition SMS_find_course :: "store \<Rightarrow> StudentManagementSystem \<Rightarrow> string \<Rightarrow> error + cref" where
  "SMS_find_course h r cid =
     (case find (\<lambda>crs. course_id (course_at h crs) = cid) (sms_courses r) of
        Some crs \<Rightarrow> Inr crs
      | None \<Rightarrow> Inl (ValueError (''No course record found for ID: '' @ cid)))"

text \<open>
  In \<^verbatim>\<open>enroll_student\<close> the argument of \<^verbatim>\<open>find_course\<close> is the name \<^verbatim>\<open>crs\<close>. It is
  no parameter or local of that method, the module binds no global of that name and
  it is no builtin, so evaluating it raises \<^verbatim>\<open>NameError\<close>.
\<close>

definition crs :: "error + string" where
  "crs = Inl (NameError ''crs'')"

text \<open>
  \<^verbatim>\<open>StudentManagementSystem.enroll_student(self, student_id, course_id)\<close>; the
  parameter \<open>cid\<close> is never read, as in the source.
\<close>

definition SMS_enroll_student ::
  "store \<Rightarrow> StudentManagementSystem \<Rightarrow> string \<Rightarrow> string \<Rightarrow>
     (error + unit) \<times> store \<times> StudentManagementSystem" where
  "SMS_enroll_student h r student_id cid =
     (case SMS_find_student h r student_id of
        Inl e \<Rightarrow> (Inl e, h, r)
      | Inr student_found \<Rightarrow>
          (case crs of
             Inl e \<Rightarrow> (Inl e, h, r)
           | Inr crs_value \<Rightarrow>
               (case SMS_find_course h r crs_value of
                  Inl e \<Rightarrow> (Inl e, h, r)
                | Inr course_found \<Rightarrow>
                    (let (enrol_obj, h') = Enrollment_init h student_found course_found None
                     in (Inr (), h', r\<lparr>sms_enrollments := sms_enrollments r @ [enrol_obj]\<rparr>)))))"

definition SMS_students_in_course ::
  "store \<Rightarrow> StudentManagementSystem \<Rightarrow> string \<Rightarrow> error + sref list" where
  "SMS_students_in_course h r cid =
     (case SMS_find_course h r cid of
        Inl e \<Rightarrow> Inl e
      | Inr course_found \<Rightarrow> Inr (enrolled_students (course_at h course_found)))"

text \<open>\<^verbatim>\<open>list(student_found.courses.keys())\<close>: the keys in insertion order.\<close>

definition SMS_student_courses ::
  "store \<Rightarrow> StudentManagementSystem \<Rightarrow> string \<Rightarrow> error + cref list" where
  "SMS_student_courses h r student_id =
     (case SMS_find_student h r student_id of
        Inl e \<Rightarrow> Inl e
      | Inr student_found \<Rightarrow> Inr (map fst (DAList.impl_of (courses (student_at h student_found)))))"

section \<open>A concrete store\<close>

text \<open>
  The objects of the scenario of the specification: the student Ada with ID \<open>S1\<close>, a
  second student Grace with ID \<open>S2\<close>, and the course Algorithms with ID \<open>C1\<close>. In
  \<open>store0\<close> Grace lives at address 1 and every other student address holds a student
  with Ada's fields, so addresses 0 and 2 are two different objects with the same ID.
  \<open>store1\<close> is \<open>store0\<close> after \<^verbatim>\<open>algorithms.add_student(ada)\<close>; \<open>store2\<close> is
  \<open>store0\<close> after \<^verbatim>\<open>Enrollment(ada, algorithms).assign_grade("A")\<close>.
\<close>

definition ada :: Student where
  "ada = \<lparr>name = ''Ada'', id_number = ''S1'', major = ''CS'', courses = DAList.empty\<rparr>"

definition grace :: Student where
  "grace = \<lparr>name = ''Grace'', id_number = ''S2'', major = ''Math'', courses = DAList.empty\<rparr>"

definition algorithms :: Course where
  "algorithms = \<lparr>course_name = ''Algorithms'', course_id = ''C1'', enrolled_students = []\<rparr>"

definition store0 :: store where
  "store0 = \<lparr>student_at = (\<lambda>_. ada)(1 := grace),
             instructor_at = (\<lambda>_. \<lparr>name = ''Alan'', id_number = ''I1'', department = ''CS''\<rparr>),
             course_at = (\<lambda>_. algorithms),
             enrol_at = (\<lambda>_. \<lparr>student = 0, course = 0, grade = None\<rparr>),
             next_enrol = 0\<rparr>"

definition store1 :: store where
  "store1 = snd (Course_add_student store0 0 0)"

definition store2 :: store where
  "store2 = snd (Enrollment_assign_grade (snd (Enrollment_init store0 0 0 None)) 0 ''A'')"

definition registry0 :: StudentManagementSystem where
  "registry0 =
     \<lparr>sms_students = [0], sms_instructors = [0], sms_courses = [0], sms_enrollments = []\<rparr>"

section \<open>Lists and dictionaries\<close>

lemma count_list_distinct: "distinct xs \<Longrightarrow> x \<in> set xs \<Longrightarrow> count_list xs x = 1"
  by (induction xs) auto

lemma keys_update:
  "set (map fst (DAList.impl_of (DAList.update k v d))) =
     insert k (set (map fst (DAList.impl_of d)))"
  by (simp add: update.rep_eq dom_update)

lemma find_first_match:
  "\<exists>x\<in>set xs. P x \<Longrightarrow> \<exists>x\<in>set xs. P x \<and> find P xs = Some x"
  by (induction xs) auto

lemma find_no_match: "\<forall>x\<in>set xs. \<not> P x \<Longrightarrow> find P xs = None"
  by (induction xs) auto

lemma find_Some_member: "find P xs = Some x \<Longrightarrow> x \<in> set xs \<and> P x"
  by (induction xs) (auto split: if_splits)

lemma find_unique:
  "s \<in> set xs \<Longrightarrow> \<forall>t\<in>set xs. f t = f s \<longrightarrow> t = s \<Longrightarrow>
     find (\<lambda>t. f t = f s) xs = Some s"
  by (induction xs) auto

section \<open>Construction of an enrollment\<close>

lemma Enrollment_init_enrolled:
  "enrolled_students (course_at (snd (Enrollment_init h s c g)) c) =
     enrolled_students (course_at h c) @ [s]"
  by (simp add: Enrollment_init_def Course_enrollment_def Student_add_course_def Let_def)

lemma Enrollment_init_courses:
  "courses (student_at (snd (Enrollment_init h s c g)) s) =
     DAList.update c g (courses (student_at h s))"
  by (simp add: Enrollment_init_def Course_enrollment_def Student_add_course_def Let_def)

lemma Enrollment_init_object:
  "enrol_at (snd (Enrollment_init h s c g)) (fst (Enrollment_init h s c g)) =
     \<lparr>student = s, course = c, grade = g\<rparr>"
  by (simp add: Enrollment_init_def Course_enrollment_def Student_add_course_def Let_def)

lemma Enrollment_init_id_number:
  "id_number (student_at (snd (Enrollment_init h s c g)) t) = id_number (student_at h t)"
  by (simp add: Enrollment_init_def Course_enrollment_def Student_add_course_def Let_def)

lemma store2_enrolled: "enrolled_students (course_at store2 0) = [0]"
  by (simp add: store2_def Enrollment_assign_grade_def grade_system_def Let_def
      Enrollment_init_enrolled) (simp add: store0_def algorithms_def)

lemma store2_grade: "DAList.lookup (courses (student_at store2 0)) 0 = Some (Some ''A'')"
  by (simp add: store2_def Enrollment_assign_grade_def grade_system_def Let_def
      Enrollment_init_def Course_enrollment_def Student_add_course_def store0_def)

text \<open>
  C9. \<^verbatim>\<open>Enrollment(s, c, g)\<close> checks for no duplicate. For every student \<open>s\<close> already
  in \<^verbatim>\<open>c.enrolled_students\<close> (the name of \<open>c\<close> and the ID of \<open>s\<close> match
  themselves, the new enrollment referring to these very objects), the construction
  appends \<open>s\<close> once more, so that \<open>s\<close> then occurs at least twice, and sets
  \<^verbatim>\<open>s.courses[c]\<close> to \<open>g\<close> whatever grade was recorded there before. The new
  object holds \<open>s\<close>, \<open>c\<close> and \<open>g\<close>.
\<close>

theorem Enrollment_init_no_duplicate_check:
  assumes "s \<in> set (enrolled_students (course_at h c))"
  shows "enrolled_students (course_at (snd (Enrollment_init h s c g)) c) =
           enrolled_students (course_at h c) @ [s] \<and>
         count_list (enrolled_students (course_at (snd (Enrollment_init h s c g)) c)) s =
           Suc (count_list (enrolled_students (course_at h c)) s) \<and>
         2 \<le> count_list (enrolled_students (course_at (snd (Enrollment_init h s c g)) c)) s \<and>
         DAList.lookup (courses (student_at (snd (Enrollment_init h s c g)) s)) c = Some g \<and>
         enrol_at (snd (Enrollment_init h s c g)) (fst (Enrollment_init h s c g)) =
           \<lparr>student = s, course = c, grade = g\<rparr>"
proof -
  have "count_list (enrolled_students (course_at h c)) s \<noteq> 0"
    using assms by (simp add: count_list_0_iff)
  then show ?thesis
    by (simp add: Enrollment_init_enrolled Enrollment_init_courses Enrollment_init_object)
qed

text \<open>
  In \<open>store2\<close> Ada is enrolled in Algorithms with grade A; a second
  \<^verbatim>\<open>Enrollment(ada, algorithms)\<close> lists her twice and resets the grade to \<^verbatim>\<open>None\<close>.
\<close>

theorem Enrollment_init_no_duplicate_check_witness:
  "enrolled_students (course_at store2 0) = [0] \<and>
   DAList.lookup (courses (student_at store2 0)) 0 = Some (Some ''A'') \<and>
   enrolled_students (course_at (snd (Enrollment_init store2 0 0 None)) 0) = [0, 0] \<and>
   DAList.lookup (courses (student_at (snd (Enrollment_init store2 0 0 None)) 0)) 0 = Some None"
proof -
  have h: "0 \<in> set (enrolled_students (course_at store2 0))"
    by (simp add: store2_enrolled)
  show ?thesis
    using Enrollment_init_no_duplicate_check [OF h, of None]
    by (simp add: store2_enrolled store2_grade)
qed

section \<open>Assigning a grade\<close>

text \<open>
  C3. For every enrollment \<open>e\<close> and string \<open>g\<close>: if \<open>g\<close> is one of A, B, C, D, E, F
  then \<^verbatim>\<open>e.assign_grade(g)\<close> returns normally and sets \<^verbatim>\<open>e.grade\<close> and
  \<^verbatim>\<open>e.student.courses[e.course]\<close> to \<open>g\<close> (the student and the course of \<open>e\<close>
  stay what they were); otherwise it raises the \<^verbatim>\<open>ValueError\<close> for an invalid grade
  and the store, hence \<^verbatim>\<open>e.grade\<close> and \<^verbatim>\<open>e.student.courses\<close>, is unchanged.
\<close>

theorem assign_grade_valid_or_unchanged:
  "(g \<in> {''A'', ''B'', ''C'', ''D'', ''E'', ''F''} \<longrightarrow>
      fst (Enrollment_assign_grade h e g) = Inr () \<and>
      grade (enrol_at (snd (Enrollment_assign_grade h e g)) e) = Some g \<and>
      DAList.lookup (courses (student_at (snd (Enrollment_assign_grade h e g))
                       (student (enrol_at h e)))) (course (enrol_at h e)) = Some (Some g) \<and>
      student (enrol_at (snd (Enrollment_assign_grade h e g)) e) = student (enrol_at h e) \<and>
      course (enrol_at (snd (Enrollment_assign_grade h e g)) e) = course (enrol_at h e)) \<and>
   (g \<notin> {''A'', ''B'', ''C'', ''D'', ''E'', ''F''} \<longrightarrow>
      Enrollment_assign_grade h e g = (Inl (ValueError ''Invalid grading system''), h))"
  by (simp add: Enrollment_assign_grade_def grade_system_def Let_def)

theorem assign_grade_valid_or_unchanged_witness:
  "grade (enrol_at (snd (Enrollment_assign_grade store0 0 ''A'')) 0) = Some ''A'' \<and>
   DAList.lookup (courses (student_at (snd (Enrollment_assign_grade store0 0 ''A'')) 0)) 0 =
     Some (Some ''A'') \<and>
   Enrollment_assign_grade store0 0 ''Z'' = (Inl (ValueError ''Invalid grading system''), store0)"
  using assign_grade_valid_or_unchanged [of "''A''" store0 0]
    assign_grade_valid_or_unchanged [of "''Z''" store0 0]
  by (simp add: store0_def)

section \<open>Enrolling through the registry\<close>

lemma enroll_student_after_find:
  "SMS_find_student h r sid = Inr s \<Longrightarrow>
     SMS_enroll_student h r sid cid = (Inl (NameError ''crs''), h, r)"
  by (simp add: SMS_enroll_student_def crs_def)

lemma enroll_student_never_succeeds:
  "fst (SMS_enroll_student h r sid cid) \<noteq> Inr () \<and> snd (SMS_enroll_student h r sid cid) = (h, r)"
  by (simp add: SMS_enroll_student_def crs_def split: sum.splits)

text \<open>
  C1. The claim says that \<^verbatim>\<open>enroll_student\<close>, in a registry that holds a student
  with the given student ID and a course with the given course ID, builds an enrollment
  and appends it to the registry's enrollments. The code does not: in the registry
  holding Ada (\<open>S1\<close>) and Algorithms (\<open>C1\<close>), both IDs resolve, and
  \<^verbatim>\<open>enroll_student("S1", "C1")\<close> raises \<^verbatim>\<open>NameError\<close> on the unbound name
  \<^verbatim>\<open>crs\<close>, leaving the store and the registry as they were.
\<close>

theorem enroll_student_raises_NameError:
  "SMS_find_student store0 registry0 ''S1'' = Inr 0 \<and>
   SMS_find_course store0 registry0 ''C1'' = Inr 0 \<and>
   SMS_enroll_student store0 registry0 ''S1'' ''C1'' =
     (Inl (NameError ''crs''), store0, registry0)"
  by (simp add: SMS_enroll_student_def crs_def SMS_find_student_def SMS_find_course_def
      store0_def registry0_def ada_def algorithms_def)

section \<open>Adding a student to a course\<close>

lemma Course_add_student_enrolled:
  "enrolled_students (course_at (snd (Course_add_student h c s)) c) =
     (if s \<in> set (enrolled_students (course_at h c)) then enrolled_students (course_at h c)
      else enrolled_students (course_at h c) @ [s])"
  by (simp add: Course_add_student_def Enrollment_init_enrolled)

lemma Course_add_student_id_number:
  "id_number (student_at (snd (Course_add_student h c s)) t) = id_number (student_at h t)"
  by (simp add: Course_add_student_def Enrollment_init_id_number)

lemma Course_add_student_course_name:
  "course_name (course_at (snd (Course_add_student h c s)) d) = course_name (course_at h d)"
  by (simp add: Course_add_student_def Enrollment_init_def Course_enrollment_def
      Student_add_course_def Let_def)

lemma store1_enrolled: "enrolled_students (course_at store1 0) = [0]"
  by (simp add: store1_def Course_add_student_enrolled) (simp add: store0_def algorithms_def)

lemma store1_id_number: "id_number (student_at store1 s) = id_number (student_at store0 s)"
  by (simp add: store1_def Course_add_student_id_number)

lemma store1_course_name: "course_name (course_at store1 0) = ''Algorithms''"
  by (simp add: store1_def Course_add_student_course_name) (simp add: store0_def algorithms_def)

lemma store1_courses: "DAList.impl_of (courses (student_at store1 0)) = [(0, None)]"
  by (simp add: store1_def Course_add_student_def Enrollment_init_courses)
    (simp add: store0_def algorithms_def ada_def update.rep_eq empty.rep_eq)

text \<open>
  C2. For every student \<open>s\<close> and course \<open>c\<close> with \<open>s\<close> not in
  \<^verbatim>\<open>c.enrolled_students\<close>, \<^verbatim>\<open>c.add_student(s)\<close> returns normally, and afterwards
  \<open>s\<close> occurs exactly once in \<^verbatim>\<open>c.enrolled_students\<close> and \<open>c\<close> occurs exactly
  once among the keys of \<^verbatim>\<open>s.courses\<close>.
\<close>

theorem add_student_links_once:
  assumes "s \<notin> set (enrolled_students (course_at h c))"
  shows "fst (Course_add_student h c s) = Inr () \<and>
         count_list (enrolled_students (course_at (snd (Course_add_student h c s)) c)) s = 1 \<and>
         count_list (map fst (DAList.impl_of
           (courses (student_at (snd (Course_add_student h c s)) s)))) c = 1"
proof -
  have "count_list (enrolled_students (course_at h c)) s = 0"
    using assms by (simp add: count_list_0_iff)
  moreover have "count_list (map fst (DAList.impl_of
      (DAList.update c None (courses (student_at h s))))) c = 1"
    by (rule count_list_distinct) (simp_all add: keys_update del: set_map)
  ultimately show ?thesis
    using assms
    by (simp add: Course_add_student_def Enrollment_init_enrolled Enrollment_init_courses)
qed

theorem add_student_links_once_witness:
  "0 \<notin> set (enrolled_students (course_at store0 0)) \<and>
   fst (Course_add_student store0 0 0) = Inr () \<and>
   count_list (enrolled_students (course_at (snd (Course_add_student store0 0 0)) 0)) 0 = 1 \<and>
   count_list (map fst (DAList.impl_of
     (courses (student_at (snd (Course_add_student store0 0 0)) 0)))) 0 = 1"
proof -
  have h: "0 \<notin> set (enrolled_students (course_at store0 0))"
    by (simp add: store0_def algorithms_def)
  show ?thesis
    using h add_student_links_once [OF h] by simp
qed

text \<open>
  C4. For every course \<open>c\<close> and student \<open>s\<close> already in \<^verbatim>\<open>c.enrolled_students\<close>,
  \<^verbatim>\<open>c.add_student(s)\<close> raises the \<^verbatim>\<open>ValueError\<close> for a duplicate enrollment and
  leaves the whole store as it was; in particular the length of
  \<^verbatim>\<open>c.enrolled_students\<close> is unchanged.
\<close>

theorem add_student_duplicate_raises:
  assumes "s \<in> set (enrolled_students (course_at h c))"
  shows "Course_add_student h c s =
           (Inl (ValueError (''Student ID '' @ id_number (student_at h s) @
                  '' is already enrolled in course '' @ course_name (course_at h c))), h) \<and>
         length (enrolled_students (course_at (snd (Course_add_student h c s)) c)) =
           length (enrolled_students (course_at h c))"
  using assms by (simp add: Course_add_student_def)

theorem add_student_duplicate_raises_witness:
  "0 \<in> set (enrolled_students (course_at store1 0)) \<and>
   Course_add_student store1 0 0 =
     (Inl (ValueError ''Student ID S1 is already enrolled in course Algorithms''), store1)"
proof -
  have h: "0 \<in> set (enrolled_students (course_at store1 0))"
    by (simp add: store1_enrolled)
  show ?thesis
    using h add_student_duplicate_raises [OF h]
    by (simp add: store1_id_number store1_course_name) (simp add: store0_def ada_def)
qed

text \<open>
  C10, as stated: for every course \<open>c\<close> and two distinct student objects with the same
  ID, after \<^verbatim>\<open>c.add_student(s1)\<close> the call \<^verbatim>\<open>c.add_student(s2)\<close> does not raise.
  It fails where \<open>s2\<close> is already enrolled in \<open>c\<close>: in \<open>store1\<close> the course lists the
  student at address 0; the student at address 2 is another object with the same ID
  \<open>S1\<close>; adding 2 succeeds, and adding 0 after it raises.
\<close>

theorem add_student_same_id_counterexample:
  "(2::nat) \<noteq> 0 \<and>
   id_number (student_at store1 2) = id_number (student_at store1 0) \<and>
   fst (Course_add_student store1 0 2) = Inr () \<and>
   fst (Course_add_student (snd (Course_add_student store1 0 2)) 0 0) =
     Inl (ValueError ''Student ID S1 is already enrolled in course Algorithms'')"
proof -
  let ?h = "snd (Course_add_student store1 0 2)"
  have 1: "fst (Course_add_student store1 0 2) = Inr ()"
    by (simp add: Course_add_student_def store1_enrolled)
  have 2: "0 \<in> set (enrolled_students (course_at ?h 0))"
    by (simp add: Course_add_student_enrolled store1_enrolled)
  have "fst (Course_add_student ?h 0 0) =
      Inl (ValueError (''Student ID '' @ id_number (student_at ?h 0) @
        '' is already enrolled in course '' @ course_name (course_at ?h 0)))"
    using 2 by (simp add: Course_add_student_def)
  then have 3: "fst (Course_add_student ?h 0 0) =
      Inl (ValueError ''Student ID S1 is already enrolled in course Algorithms'')"
    by (simp add: Course_add_student_id_number Course_add_student_course_name
        store1_id_number store1_course_name) (simp add: store0_def ada_def)
  show ?thesis
    using 1 3 by (simp add: store1_id_number) (simp add: store0_def)
qed

text \<open>
  C10, amended: the duplicate check of \<^verbatim>\<open>Course.add_student\<close> compares objects, not
  IDs. For every course \<open>c\<close> and two distinct student objects \<open>s1\<close> and \<open>s2\<close> with
  the same ID, \<open>s2\<close> not yet in \<^verbatim>\<open>c.enrolled_students\<close>: after
  \<^verbatim>\<open>c.add_student(s1)\<close> (whether that call enrolled \<open>s1\<close> or found it enrolled) the
  call \<^verbatim>\<open>c.add_student(s2)\<close> returns normally and enrolls \<open>s2\<close>, so that
  \<^verbatim>\<open>c.enrolled_students\<close> holds two students sharing one ID.
\<close>

theorem add_student_same_id_distinct_objects:
  assumes "s1 \<noteq> s2"
    and "id_number (student_at h s1) = id_number (student_at h s2)"
    and "s2 \<notin> set (enrolled_students (course_at h c))"
  shows "fst (Course_add_student (snd (Course_add_student h c s1)) c s2) = Inr () \<and>
         s1 \<in> set (enrolled_students (course_at
                 (snd (Course_add_student (snd (Course_add_student h c s1)) c s2)) c)) \<and>
         s2 \<in> set (enrolled_students (course_at
                 (snd (Course_add_student (snd (Course_add_student h c s1)) c s2)) c)) \<and>
         id_number (student_at
             (snd (Course_add_student (snd (Course_add_student h c s1)) c s2)) s1) =
         id_number (student_at
             (snd (Course_add_student (snd (Course_add_student h c s1)) c s2)) s2)"
proof -
  let ?h1 = "snd (Course_add_student h c s1)"
  have 1: "s2 \<notin> set (enrolled_students (course_at ?h1 c))"
    using assms by (simp add: Course_add_student_enrolled)
  have 2: "s1 \<in> set (enrolled_students (course_at ?h1 c))"
    by (simp add: Course_add_student_enrolled)
  have "fst (Course_add_student ?h1 c s2) = Inr ()"
    using 1 by (simp add: Course_add_student_def)
  moreover have "enrolled_students (course_at (snd (Course_add_student ?h1 c s2)) c) =
      enrolled_students (course_at ?h1 c) @ [s2]"
    using 1 by (simp only: Course_add_student_enrolled if_False)
  ultimately show ?thesis
    using 2 assms(2) by (simp add: Course_add_student_id_number)
qed

theorem add_student_same_id_distinct_objects_witness:
  "(0::nat) \<noteq> 2 \<and>
   id_number (student_at store0 0) = id_number (student_at store0 2) \<and>
   2 \<notin> set (enrolled_students (course_at store0 0)) \<and>
   fst (Course_add_student (snd (Course_add_student store0 0 0)) 0 2) = Inr () \<and>
   enrolled_students (course_at
     (snd (Course_add_student (snd (Course_add_student store0 0 0)) 0 2)) 0) = [0, 2]"
proof -
  have a: "(0::nat) \<noteq> 2" by simp
  have b: "id_number (student_at store0 0) = id_number (student_at store0 2)"
    by (simp add: store0_def)
  have c: "2 \<notin> set (enrolled_students (course_at store0 0))"
    by (simp add: store0_def algorithms_def)
  have "enrolled_students (course_at
      (snd (Course_add_student (snd (Course_add_student store0 0 0)) 0 2)) 0) = [0, 2]"
    by (simp add: Course_add_student_enrolled) (simp add: store0_def algorithms_def)
  then show ?thesis
    using a b c add_student_same_id_distinct_objects [OF a b c] by simp
qed

section \<open>Removing a student from a course\<close>

lemma remove_student_found:
  assumes "Course_find_enrolled_student h c sid = Some s"
  shows "Course_remove_student h c sid =
           (Inr (), h\<lparr>course_at := (course_at h)(c := (course_at h c)
              \<lparr>enrolled_students := remove1 s (enrolled_students (course_at h c))\<rparr>)\<rparr>)"
proof -
  from assms have "s \<in> set (enrolled_students (course_at h c))"
    by (auto simp: Course_find_enrolled_student_def dest: find_Some_member)
  with assms show ?thesis
    by (simp add: Course_remove_student_def list_remove_def)
qed

lemma remove_student_absent:
  assumes "\<forall>s\<in>set (enrolled_students (course_at h c)). id_number (student_at h s) \<noteq> sid"
  shows "Course_remove_student h c sid = (Inr (), h)"
  using assms
  by (simp add: Course_remove_student_def Course_find_enrolled_student_def find_no_match)

text \<open>
  C6. For every course \<open>c\<close> and student ID: \<^verbatim>\<open>c.remove_student(student_id)\<close> returns
  normally. When no student in \<^verbatim>\<open>c.enrolled_students\<close> has that ID, the store is
  unchanged. When one has, the student \<^verbatim>\<open>find_enrolled_student\<close> returns (the first
  with that ID) is removed from the list at its first occurrence, which shortens the
  list by one. In both cases every student object, hence every \<^verbatim>\<open>courses\<close>
  mapping, and every enrollment object is unchanged.
\<close>

theorem remove_student_frame:
  "fst (Course_remove_student h c sid) = Inr () \<and>
   student_at (snd (Course_remove_student h c sid)) = student_at h \<and>
   enrol_at (snd (Course_remove_student h c sid)) = enrol_at h \<and>
   ((\<forall>s\<in>set (enrolled_students (course_at h c)). id_number (student_at h s) \<noteq> sid) \<longrightarrow>
      snd (Course_remove_student h c sid) = h) \<and>
   ((\<exists>s\<in>set (enrolled_students (course_at h c)). id_number (student_at h s) = sid) \<longrightarrow>
      (\<exists>s\<in>set (enrolled_students (course_at h c)).
         id_number (student_at h s) = sid \<and>
         Course_find_enrolled_student h c sid = Some s \<and>
         enrolled_students (course_at (snd (Course_remove_student h c sid)) c) =
           remove1 s (enrolled_students (course_at h c)) \<and>
         Suc (length (enrolled_students (course_at (snd (Course_remove_student h c sid)) c))) =
           length (enrolled_students (course_at h c))))"
proof (cases "\<exists>s\<in>set (enrolled_students (course_at h c)). id_number (student_at h s) = sid")
  case True
  then obtain s where s: "s \<in> set (enrolled_students (course_at h c))"
      "id_number (student_at h s) = sid" "Course_find_enrolled_student h c sid = Some s"
    unfolding Course_find_enrolled_student_def
    using find_first_match [of "enrolled_students (course_at h c)"
        "\<lambda>t. id_number (student_at h t) = sid"]
    by blast
  have "Suc (length (remove1 s (enrolled_students (course_at h c)))) =
      length (enrolled_students (course_at h c))"
    using s(1) by (simp add: length_remove1) (cases "enrolled_students (course_at h c)"; simp)
  with s True show ?thesis
    by (auto simp: remove_student_found [OF s(3)])
next
  case False
  then have "Course_remove_student h c sid = (Inr (), h)"
    by (intro remove_student_absent) blast
  with False show ?thesis by simp
qed

text \<open>
  In \<open>store1\<close> Algorithms lists Ada alone: removing \<open>S1\<close> empties the list and keeps
  her \<^verbatim>\<open>courses\<close> entry for Algorithms; removing the unknown \<open>S9\<close> changes nothing.
\<close>

theorem remove_student_frame_witness:
  "enrolled_students (course_at store1 0) = [0] \<and>
   enrolled_students (course_at (snd (Course_remove_student store1 0 ''S1'')) 0) = [] \<and>
   DAList.impl_of (courses (student_at (snd (Course_remove_student store1 0 ''S1'')) 0)) =
     [(0, None)] \<and>
   snd (Course_remove_student store1 0 ''S9'') = store1"
  using remove_student_frame [of store1 0 "''S1''"] remove_student_frame [of store1 0 "''S9''"]
  by (simp add: store1_enrolled store1_id_number store1_courses) (simp add: store0_def ada_def)

section \<open>The registry's collections\<close>

lemma add_students_set:
  "set (sms_students (foldl SMS_add_student r ss)) = set (sms_students r) \<union> set ss"
  by (induction ss arbitrary: r) (auto simp: SMS_add_student_def)

text \<open>
  C5. Take any registry \<open>r\<close> and add the students \<open>ss\<close> one after the other with
  \<^verbatim>\<open>add_student\<close>. If the students of the registry, those held before and those
  added (every one of them got there through \<^verbatim>\<open>add_student\<close>), are objects with
  pairwise distinct IDs, then \<^verbatim>\<open>find_student(s.id_number)\<close> returns \<open>s\<close> for each
  added student \<open>s\<close>; and for an ID that no student of the registry carries,
  \<^verbatim>\<open>find_student\<close> raises the \<^verbatim>\<open>ValueError\<close> for a student that is not found.
\<close>

theorem find_student_after_add:
  assumes "\<forall>s\<in>set (sms_students r) \<union> set ss. \<forall>t\<in>set (sms_students r) \<union> set ss.
             id_number (student_at h s) = id_number (student_at h t) \<longrightarrow> s = t"
  shows "(\<forall>s\<in>set ss. SMS_find_student h (foldl SMS_add_student r ss)
                        (id_number (student_at h s)) = Inr s) \<and>
         ((\<forall>s\<in>set (sms_students (foldl SMS_add_student r ss)).
              id_number (student_at h s) \<noteq> i) \<longrightarrow>
            SMS_find_student h (foldl SMS_add_student r ss) i =
              Inl (ValueError (''No student record found for ID: '' @ i)))"
proof (intro conjI ballI impI)
  let ?r = "foldl SMS_add_student r ss"
  fix s assume "s \<in> set ss"
  then have m: "s \<in> set (sms_students ?r)"
    by (simp add: add_students_set)
  have "find (\<lambda>t. id_number (student_at h t) = id_number (student_at h s))
      (sms_students ?r) = Some s"
    using m assms by (intro find_unique) (auto simp: add_students_set)
  then show "SMS_find_student h ?r (id_number (student_at h s)) = Inr s"
    by (simp add: SMS_find_student_def)
next
  let ?r = "foldl SMS_add_student r ss"
  assume "\<forall>s\<in>set (sms_students ?r). id_number (student_at h s) \<noteq> i"
  then show "SMS_find_student h ?r i =
      Inl (ValueError (''No student record found for ID: '' @ i))"
    by (simp add: SMS_find_student_def find_no_match)
qed

text \<open>Ada (\<open>S1\<close>) and Grace (\<open>S2\<close>) added to a new registry; nobody carries \<open>S9\<close>.\<close>

theorem find_student_after_add_witness:
  "sms_students (foldl SMS_add_student SMS_init [0, 1]) = [0, 1] \<and>
   SMS_find_student store0 (foldl SMS_add_student SMS_init [0, 1]) ''S1'' = Inr 0 \<and>
   SMS_find_student store0 (foldl SMS_add_student SMS_init [0, 1]) ''S2'' = Inr 1 \<and>
   SMS_find_student store0 (foldl SMS_add_student SMS_init [0, 1]) ''S9'' =
     Inl (ValueError ''No student record found for ID: S9'')"
proof -
  have ids: "id_number (student_at store0 0) = ''S1''" "id_number (student_at store0 1) = ''S2''"
    by (simp_all add: store0_def ada_def grace_def)
  have r: "sms_students (foldl SMS_add_student SMS_init [0, 1]) = [0, 1]"
    by (simp add: SMS_add_student_def SMS_init_def)
  have h: "\<forall>s\<in>set (sms_students SMS_init) \<union> set [0, 1].
      \<forall>t\<in>set (sms_students SMS_init) \<union> set [0, 1].
        id_number (student_at store0 s) = id_number (student_at store0 t) \<longrightarrow> s = t"
    by (simp add: SMS_init_def store0_def ada_def grace_def)
  show ?thesis
    using r ids find_student_after_add [OF h, of "''S9''"] by simp
qed

text \<open>
  C7. For every registry, \<^verbatim>\<open>add_student\<close>, \<^verbatim>\<open>add_instructor\<close> and
  \<^verbatim>\<open>add_course\<close> leave the registry unchanged when the object is already in the
  collection (they have no failing branch), and each is idempotent: adding the same
  object twice gives the registry that adding it once gives.
\<close>

theorem add_idempotent:
  "(s \<in> set (sms_students r) \<longrightarrow> SMS_add_student r s = r) \<and>
   SMS_add_student (SMS_add_student r s) s = SMS_add_student r s \<and>
   (i \<in> set (sms_instructors r) \<longrightarrow> SMS_add_instructor r i = r) \<and>
   SMS_add_instructor (SMS_add_instructor r i) i = SMS_add_instructor r i \<and>
   (c \<in> set (sms_courses r) \<longrightarrow> SMS_add_course r c = r) \<and>
   SMS_add_course (SMS_add_course r c) c = SMS_add_course r c"
  by (simp add: SMS_add_student_def SMS_add_instructor_def SMS_add_course_def)

theorem add_idempotent_witness:
  "SMS_add_student registry0 0 = registry0 \<and>
   SMS_add_instructor registry0 0 = registry0 \<and>
   SMS_add_course registry0 0 = registry0 \<and>
   sms_students (SMS_add_student (SMS_add_student registry0 1) 1) = [0, 1]"
  using add_idempotent [of 0 registry0 0 0] add_idempotent [of 1 registry0 0 0]
  by (simp add: registry0_def) (simp add: SMS_add_student_def)

section \<open>Relationship queries\<close>

lemma find_course_resolves:
  "\<exists>c\<in>set (sms_courses r). course_id (course_at h c) = cid \<Longrightarrow>
     \<exists>c\<in>set (sms_courses r). course_id (course_at h c) = cid \<and> SMS_find_course h r cid = Inr c"
  using find_first_match [of "sms_courses r" "\<lambda>c. course_id (course_at h c) = cid"]
  by (auto simp: SMS_find_course_def)

lemma find_student_resolves:
  "\<exists>s\<in>set (sms_students r). id_number (student_at h s) = sid \<Longrightarrow>
     \<exists>s\<in>set (sms_students r). id_number (student_at h s) = sid \<and> SMS_find_student h r sid = Inr s"
  using find_first_match [of "sms_students r" "\<lambda>s. id_number (student_at h s) = sid"]
  by (auto simp: SMS_find_student_def)

text \<open>
  C8. For every registry: when \<^verbatim>\<open>find_course(course_id)\<close> resolves to a course
  (one of the registry's courses, carrying that ID), \<^verbatim>\<open>students_in_course\<close> returns
  that course's \<^verbatim>\<open>enrolled_students\<close>; when \<^verbatim>\<open>find_student(student_id)\<close>
  resolves to a student, \<^verbatim>\<open>student_courses\<close> returns the keys of that student's
  \<^verbatim>\<open>courses\<close>. The find resolves whenever a course, or a student, of the registry
  carries the ID. When none does, each query raises the matching not-found
  \<^verbatim>\<open>ValueError\<close> instead of returning an empty list.
\<close>

theorem relationship_queries:
  "(SMS_find_course h r cid = Inr c \<longrightarrow>
      c \<in> set (sms_courses r) \<and> course_id (course_at h c) = cid \<and>
      SMS_students_in_course h r cid = Inr (enrolled_students (course_at h c))) \<and>
   ((\<exists>c\<in>set (sms_courses r). course_id (course_at h c) = cid) \<longrightarrow>
      (\<exists>c\<in>set (sms_courses r). SMS_find_course h r cid = Inr c)) \<and>
   ((\<forall>c\<in>set (sms_courses r). course_id (course_at h c) \<noteq> cid) \<longrightarrow>
      SMS_students_in_course h r cid =
        Inl (ValueError (''No course record found for ID: '' @ cid))) \<and>
   (SMS_find_student h r sid = Inr s \<longrightarrow>
      s \<in> set (sms_students r) \<and> id_number (student_at h s) = sid \<and>
      SMS_student_courses h r sid =
        Inr (map fst (DAList.impl_of (courses (student_at h s))))) \<and>
   ((\<exists>s\<in>set (sms_students r). id_number (student_at h s) = sid) \<longrightarrow>
      (\<exists>s\<in>set (sms_students r). SMS_find_student h r sid = Inr s)) \<and>
   ((\<forall>s\<in>set (sms_students r). id_number (student_at h s) \<noteq> sid) \<longrightarrow>
      SMS_student_courses h r sid =
        Inl (ValueError (''No student record found for ID: '' @ sid)))"
proof -
  have "(\<exists>c\<in>set (sms_courses r). course_id (course_at h c) = cid) \<longrightarrow>
      (\<exists>c\<in>set (sms_courses r). SMS_find_course h r cid = Inr c)"
    using find_course_resolves [of r h cid] by blast
  moreover have "(\<exists>s\<in>set (sms_students r). id_number (student_at h s) = sid) \<longrightarrow>
      (\<exists>s\<in>set (sms_students r). SMS_find_student h r sid = Inr s)"
    using find_student_resolves [of r h sid] by blast
  moreover have "SMS_find_course h r cid = Inr c \<longrightarrow>
      c \<in> set (sms_courses r) \<and> course_id (course_at h c) = cid \<and>
      SMS_students_in_course h r cid = Inr (enrolled_students (course_at h c))"
    by (auto simp: SMS_students_in_course_def SMS_find_course_def
        split: option.splits dest: find_Some_member)
  moreover have "SMS_find_student h r sid = Inr s \<longrightarrow>
      s \<in> set (sms_students r) \<and> id_number (student_at h s) = sid \<and>
      SMS_student_courses h r sid =
        Inr (map fst (DAList.impl_of (courses (student_at h s))))"
    by (auto simp: SMS_student_courses_def SMS_find_student_def
        split: option.splits dest: find_Some_member)
  moreover have "(\<forall>c\<in>set (sms_courses r). course_id (course_at h c) \<noteq> cid) \<longrightarrow>
      SMS_students_in_course h r cid =
        Inl (ValueError (''No course record found for ID: '' @ cid))"
    by (simp add: SMS_students_in_course_def SMS_find_course_def find_no_match)
  moreover have "(\<forall>s\<in>set (sms_students r). id_number (student_at h s) \<noteq> sid) \<longrightarrow>
      SMS_student_courses h r sid =
        Inl (ValueError (''No student record found for ID: '' @ sid))"
    by (simp add: SMS_student_courses_def SMS_find_student_def find_no_match)
  ultimately show ?thesis by blast
qed

lemma store1_course_id: "course_id (course_at store1 c) = ''C1''"
  by (simp add: store1_def Course_add_student_def Enrollment_init_def Course_enrollment_def
      Student_add_course_def Let_def store0_def algorithms_def)

text \<open>
  The registry holding Ada and Algorithms, after \<^verbatim>\<open>algorithms.add_student(ada)\<close>;
  no course carries \<open>C9\<close> and no student \<open>S9\<close>.
\<close>

theorem relationship_queries_witness:
  "SMS_students_in_course store1 registry0 ''C1'' = Inr [0] \<and>
   SMS_students_in_course store1 registry0 ''C9'' =
     Inl (ValueError ''No course record found for ID: C9'') \<and>
   SMS_student_courses store1 registry0 ''S1'' = Inr [0] \<and>
   SMS_student_courses store1 registry0 ''S9'' =
     Inl (ValueError ''No student record found for ID: S9'')"
proof -
  have c: "SMS_find_course store1 registry0 ''C1'' = Inr 0"
    by (simp add: SMS_find_course_def registry0_def store1_course_id)
  have s: "SMS_find_student store1 registry0 ''S1'' = Inr 0"
    by (simp add: SMS_find_student_def registry0_def store1_id_number) (simp add: store0_def ada_def)
  have n: "\<forall>c\<in>set (sms_courses registry0). course_id (course_at store1 c) \<noteq> ''C9''"
    "\<forall>s\<in>set (sms_students registry0). id_number (student_at store1 s) \<noteq> ''S9''"
    by (simp_all add: registry0_def store1_course_id store1_id_number) (simp add: store0_def ada_def)
  show ?thesis
    using c s n
      relationship_queries [where h = store1 and r = registry0 and cid = "''C1''" and c = 0
        and sid = "''S1''" and s = 0]
      relationship_queries [where h = store1 and r = registry0 and cid = "''C9''" and c = 0
        and sid = "''S9''" and s = 0]
    by (simp add: store1_enrolled store1_courses)
qed

end
